theory Spec2Isabelle
  imports Complex_Main "HOL-Library.Word" "HOL-Library.Sublist"
begin

section \<open>Errors and the outside world\<close>

text \<open>
  Go strings are byte sequences, modelled as \<open>string\<close> (a list of 8-bit characters).
  An \<open>error\<close> value is either built by \<open>fmt.Errorf\<close> from a constant message, returned by
  the operating system, or wraps another error behind a message (\<open>%w\<close>).  A function with
  Go's result type \<open>(T, error)\<close> returns a pair whose second component is \<open>None\<close> for
  \<open>nil\<close>; a run-time panic is the error \<open>Panic\<close>.
\<close>

datatype os_error = ErrNotExist | ErrOther string

datatype error =
    Errorf string
  | OSError os_error
  | Wrapped string error
  | Panic string

fun os_IsNotExist :: "error \<Rightarrow> bool" where
  "os_IsNotExist (OSError ErrNotExist) = True"
| "os_IsNotExist _ = False"

section \<open>Package apphostingschema\<close>

subsection \<open>Data model\<close>

text \<open>
  \<open>*float32\<close> and \<open>*int32\<close> fields are optional values.  A \<open>float32\<close> is the real number
  it denotes, an infinity or NaN; the code only compares it with the constants 1 and 8,
  and a comparison with NaN is false.  An \<open>int32\<close> is a 32-bit word compared as a signed
  number.
\<close>

datatype float32 = Finite real | PosInf | NegInf | NaN

fun f32_le :: "float32 \<Rightarrow> float32 \<Rightarrow> bool" where
  "f32_le NaN _ = False"
| "f32_le _ NaN = False"
| "f32_le NegInf _ = True"
| "f32_le _ PosInf = True"
| "f32_le (Finite x) (Finite y) = (x \<le> y)"
| "f32_le PosInf _ = False"
| "f32_le _ NegInf = False"

type_synonym int32 = "32 word"

record RunConfig =
  CPU :: "float32 option"
  MemoryMiB :: "int32 option"
  Concurrency :: "int32 option"
  MaxInstances :: "int32 option"
  MinInstances :: "int32 option"

record EnvironmentVariable =
  Variable :: string
  Value :: string
  Secret :: string
  Availability :: "string list"

record AppHostingSchema =
  RunConfig :: RunConfig
  Env :: "EnvironmentVariable list"

definition validAvailabilityValues :: "string \<rightharpoonup> bool" where
  "validAvailabilityValues = [''BUILD'' \<mapsto> True, ''RUNTIME'' \<mapsto> True]"

text \<open>Reading a \<open>map[string]bool\<close> at a missing key gives \<open>false\<close>.\<close>

definition lookup_bool :: "(string \<rightharpoonup> bool) \<Rightarrow> string \<Rightarrow> bool" where
  "lookup_bool m k = (case m k of None \<Rightarrow> False | Some b \<Rightarrow> b)"

subsection \<open>EnvironmentVariable.UnmarshalYAML\<close>

text \<open>
  The hook receives the decoder's callback \<open>unmarshal\<close>, which fills the receiver from the
  document and may fail.  The model passes the receiver in and returns it with the error.
  The loop over \<open>ev.Availability\<close> returns at the first tag that is not valid.
\<close>

fun check_availability :: "string list \<Rightarrow> error option" where
  "check_availability [] = None"
| "check_availability (val # rest) =
     (if \<not> lookup_bool validAvailabilityValues val
      then Some (Errorf (''invalid value in 'availability': '' @ val))
      else check_availability rest)"

definition EnvironmentVariable_UnmarshalYAML ::
  "(EnvironmentVariable \<Rightarrow> EnvironmentVariable \<times> error option) \<Rightarrow>
   EnvironmentVariable \<Rightarrow> EnvironmentVariable \<times> error option" where
  "EnvironmentVariable_UnmarshalYAML unmarshal ev0 =
     (case unmarshal ev0 of
        (ev, Some err) \<Rightarrow> (ev, Some err)
      | (ev, None) \<Rightarrow>
          if Value ev \<noteq> [] \<and> Secret ev \<noteq> []
          then (ev, Some (Errorf ''both 'value' and 'secret' fields cannot be present''))
          else if Value ev = [] \<and> Secret ev = []
          then (ev, Some (Errorf ''either 'value' or 'secret' field is required''))
          else (ev, check_availability (Availability ev)))"

subsection \<open>RunConfig.UnmarshalYAML\<close>

definition RunConfig_UnmarshalYAML ::
  "(RunConfig \<Rightarrow> RunConfig \<times> error option) \<Rightarrow> RunConfig \<Rightarrow> RunConfig \<times> error option" where
  "RunConfig_UnmarshalYAML unmarshal rc0 =
     (case unmarshal rc0 of
        (rc, Some err) \<Rightarrow> (rc, Some err)
      | (rc, None) \<Rightarrow>
          if CPU rc \<noteq> None \<and> \<not> (f32_le (Finite 1) (the (CPU rc)) \<and> f32_le (the (CPU rc)) (Finite 8))
          then (rc, Some (Errorf ''runConfig.cpu field is not in valid range of [1, 8]''))
          else if MemoryMiB rc \<noteq> None \<and>
                  \<not> (512 \<le>s the (MemoryMiB rc) \<and> the (MemoryMiB rc) \<le>s 32768)
          then (rc, Some (Errorf ''runConfig.memory field is not in valid range of [512, 32768]''))
          else if Concurrency rc \<noteq> None \<and>
                  \<not> (1 \<le>s the (Concurrency rc) \<and> the (Concurrency rc) \<le>s 1000)
          then (rc, Some (Errorf ''runConfig.concurrency field is not in valid range of [1, 1000]''))
          else if MaxInstances rc \<noteq> None \<and>
                  \<not> (1 \<le>s the (MaxInstances rc) \<and> the (MaxInstances rc) \<le>s 100)
          then (rc, Some (Errorf ''runConfig.maxInstances field is not in valid range of [1, 100]''))
          else if MinInstances rc \<noteq> None \<and>
                  \<not> (0 \<le>s the (MinInstances rc) \<and> the (MinInstances rc) \<le>s 100)
          then (rc, Some (Errorf ''runConfig.minInstances field is not in valid range of [1, 100]''))
          else (rc, None))"

subsection \<open>ReadAndValidateAppHostingSchemaFromFile\<close>

text \<open>
  \<open>os.ReadFile\<close> and the YAML decoder are outside the repository; they are parameters of
  the model: \<open>readFile\<close> gives the bytes of a file or the error, and \<open>unmarshal\<close> decodes a
  buffer into the schema (running the two hooks above on the way) and returns the schema
  with the error.  The log line written for a missing file is not modelled.
\<close>

definition empty_RunConfig :: RunConfig where
  "empty_RunConfig =
     \<lparr>CPU = None, MemoryMiB = None, Concurrency = None, MaxInstances = None, MinInstances = None\<rparr>"

definition empty_AppHostingSchema :: AppHostingSchema where
  "empty_AppHostingSchema = \<lparr>RunConfig = empty_RunConfig, Env = []\<rparr>"

definition ReadAndValidateAppHostingSchemaFromFile ::
  "(string \<Rightarrow> error + string) \<Rightarrow>
   (string \<Rightarrow> AppHostingSchema \<Rightarrow> AppHostingSchema \<times> error option) \<Rightarrow>
   string \<Rightarrow> AppHostingSchema \<times> error option" where
  "ReadAndValidateAppHostingSchemaFromFile readFile unmarshal filePath =
     (let a = empty_AppHostingSchema in
      case readFile filePath of
        Inl err \<Rightarrow>
          if os_IsNotExist err then (a, None)
          else (a, Some (Wrapped (''reading apphosting config at '' @ filePath) err))
      | Inr apphostingBuffer \<Rightarrow>
          (case unmarshal apphostingBuffer a of
             (a', Some err) \<Rightarrow> (a', Some (Wrapped ''unmarshalling apphosting config as YAML'' err))
           | (a', None) \<Rightarrow> (a', None)))"

subsection \<open>The bounds of the specification\<close>

text \<open>
  The ranges as the specification words them: a CPU value is a number between 1 and 8, an
  integer field lies between its two bounds as a signed number; an absent field is in range.
\<close>

definition cpu_in_range :: "RunConfig \<Rightarrow> bool" where
  "cpu_in_range rc =
     (case CPU rc of None \<Rightarrow> True | Some (Finite r) \<Rightarrow> 1 \<le> r \<and> r \<le> 8 | Some _ \<Rightarrow> False)"

definition int32_in_range :: "int \<Rightarrow> int \<Rightarrow> int32 option \<Rightarrow> bool" where
  "int32_in_range lo hi v = (case v of None \<Rightarrow> True | Some m \<Rightarrow> lo \<le> sint m \<and> sint m \<le> hi)"

section \<open>Go's string functions\<close>

text \<open>
  The functions of package \<open>strings\<close> that the program calls, on byte strings.
  \<open>strings.Split\<close> cuts at each occurrence of the separator, found from the left and not
  overlapping, and always returns at least one piece.  The program only passes constant,
  non-empty separators; for an empty one Go cuts after each UTF-8 sequence, which the model
  gives for single-byte characters only.
\<close>

definition strings_HasPrefix :: "string \<Rightarrow> string \<Rightarrow> bool" where
  "strings_HasPrefix s p = (take (length p) s = p)"

fun strings_Contains :: "string \<Rightarrow> string \<Rightarrow> bool" where
  "strings_Contains [] substr = (substr = [])"
| "strings_Contains (c # s) substr =
     (strings_HasPrefix (c # s) substr \<or> strings_Contains s substr)"

function split_from :: "string \<Rightarrow> string \<Rightarrow> string \<Rightarrow> string list" where
  "split_from sep cur [] = [rev cur]"
| "split_from sep cur (c # s) =
     (if sep \<noteq> [] \<and> strings_HasPrefix (c # s) sep
      then rev cur # split_from sep [] (drop (length sep) (c # s))
      else split_from sep (c # cur) s)"
  by pat_completeness auto
termination
  by (relation "measure (\<lambda>(sep, cur, s). length s)") auto

definition strings_Split :: "string \<Rightarrow> string \<Rightarrow> string list" where
  "strings_Split s sep = (if sep = [] then map (\<lambda>c. [c]) s else split_from sep [] s)"

fun strings_Join :: "string list \<Rightarrow> string \<Rightarrow> string" where
  "strings_Join [] sep = []"
| "strings_Join [x] sep = x"
| "strings_Join (x # y # rest) sep = x @ sep @ strings_Join (y # rest) sep"

text \<open>
  \<open>strings.Fields\<close> cuts around runs of white space (\<open>unicode.IsSpace\<close>) and returns no
  empty field.  \<open>space_width\<close> is the number of bytes of the white-space character that
  starts the string, 0 when none does: the six ASCII ones, and the UTF-8 encodings of
  U+0085, U+00A0, U+1680, U+2000 to U+200A, U+2028, U+2029, U+202F, U+205F and U+3000.
  The lead bytes of these encodings are not continuation bytes, so Go's decoder always
  starts a character where one of them occurs.
\<close>

definition space_width :: "string \<Rightarrow> nat" where
  "space_width s =
     (if take 1 s \<in> {[CHR 0x09], [CHR 0x0A], [CHR 0x0B], [CHR 0x0C], [CHR 0x0D], [CHR 0x20]}
      then 1
      else if take 2 s \<in> {[CHR 0xC2, CHR 0x85], [CHR 0xC2, CHR 0xA0]} then 2
      else if take 3 s \<in>
           {[CHR 0xE1, CHR 0x9A, CHR 0x80],
            [CHR 0xE2, CHR 0x80, CHR 0x80], [CHR 0xE2, CHR 0x80, CHR 0x81],
            [CHR 0xE2, CHR 0x80, CHR 0x82], [CHR 0xE2, CHR 0x80, CHR 0x83],
            [CHR 0xE2, CHR 0x80, CHR 0x84], [CHR 0xE2, CHR 0x80, CHR 0x85],
            [CHR 0xE2, CHR 0x80, CHR 0x86], [CHR 0xE2, CHR 0x80, CHR 0x87],
            [CHR 0xE2, CHR 0x80, CHR 0x88], [CHR 0xE2, CHR 0x80, CHR 0x89],
            [CHR 0xE2, CHR 0x80, CHR 0x8A],
            [CHR 0xE2, CHR 0x80, CHR 0xA8], [CHR 0xE2, CHR 0x80, CHR 0xA9],
            [CHR 0xE2, CHR 0x80, CHR 0xAF], [CHR 0xE2, CHR 0x81, CHR 0x9F],
            [CHR 0xE3, CHR 0x80, CHR 0x80]}
      then 3
      else 0)"

definition flush_field :: "string \<Rightarrow> string list" where
  "flush_field cur = (if cur = [] then [] else [rev cur])"

function fields_from :: "string \<Rightarrow> string \<Rightarrow> string list" where
  "fields_from cur [] = flush_field cur"
| "fields_from cur (c # s) =
     (if 0 < space_width (c # s)
      then flush_field cur @ fields_from [] (drop (space_width (c # s)) (c # s))
      else fields_from (c # cur) s)"
  by pat_completeness auto
termination
  by (relation "measure (\<lambda>(cur, s). length s)") auto

definition strings_Fields :: "string \<Rightarrow> string list" where
  "strings_Fields s = fields_from [] s"

text \<open>\<open>strings.Trim\<close> for a cutset of ASCII characters: they are removed at both ends.\<close>

definition strings_Trim :: "string \<Rightarrow> string \<Rightarrow> string" where
  "strings_Trim s cutset =
     rev (dropWhile (\<lambda>c. c \<in> set cutset) (rev (dropWhile (\<lambda>c. c \<in> set cutset) s)))"

text \<open>\<open>strconv.FormatUint(u, 10)\<close>: the decimal digits of an unsigned 64-bit number.\<close>

fun decimal :: "nat \<Rightarrow> string" where
  "decimal n =
     (if n < 10 then [''0123456789'' ! n]
      else decimal (n div 10) @ [''0123456789'' ! (n mod 10)])"

declare decimal.simps [simp del]

definition strconv_FormatUint10 :: "64 word \<Rightarrow> string" where
  "strconv_FormatUint10 u = decimal (unat u)"

section \<open>Package nodejs: the Next.js adaptor\<close>

subsection \<open>Data model and the libraries\<close>

text \<open>
  The two lock-file structs map a key to a struct with the single field \<open>Version\<close>; a
  missing key reads as the zero struct, whose version is the empty string.
\<close>

record LockEntry =
  entry_Version :: string

record NpmLockfile =
  Packages :: "string \<rightharpoonup> LockEntry"

record PnpmLockfile =
  pnpm_Dependencies :: "string \<rightharpoonup> LockEntry"

text \<open>
  Modelled from the spec: the struct \<open>PackageJSON\<close> is declared in a file of the package
  that is not among the sources.  The specification describes the dependency manifest as a
  mapping from dependency name to declared specifier string; the program reads it as
  \<open>pjs.Dependencies["next"]\<close>, where a missing key gives the empty string.
\<close>

record PackageJSON =
  Dependencies :: "string \<rightharpoonup> string"

text \<open>
  Modelled from the spec: the build context \<open>gcp.Context\<close> is declared outside the
  sources.  The program only asks it for the application root, the directory in which the
  specification places the lock files.
\<close>

record Context =
  ApplicationRoot :: string

definition lookup_version :: "(string \<rightharpoonup> LockEntry) \<Rightarrow> string \<Rightarrow> string" where
  "lookup_version m k = (case m k of None \<Rightarrow> [] | Some e \<Rightarrow> entry_Version e)"

definition lookup_string :: "(string \<rightharpoonup> string) \<Rightarrow> string \<Rightarrow> string" where
  "lookup_string m k = (case m k of None \<Rightarrow> [] | Some v \<Rightarrow> v)"

text \<open>
  A parsed semantic version (package \<open>semver\<close>) with its numeric parts, and a parsed
  constraint, of which the program only reads the rendering \<open>String()\<close>.
\<close>

record semver_Version =
  Major :: "64 word"
  Minor :: "64 word"
  Patch :: "64 word"
  Prerelease :: string
  Metadata :: string

record semver_Constraints =
  String :: string

text \<open>
  The library and system calls of this package, which are not part of the repository, are
  the fields of \<open>world\<close>: reading a file, joining two path elements, decoding YAML and JSON
  into the lock-file structs, and the two parsers of package \<open>semver\<close>.  Each fallible one
  returns \<open>Inl\<close> with the error or \<open>Inr\<close> with the value.
\<close>

record world =
  os_ReadFile :: "string \<Rightarrow> error + string"
  filepath_Join :: "string \<Rightarrow> string \<Rightarrow> string"
  yaml_Unmarshal :: "string \<Rightarrow> error + PnpmLockfile"
  json_Unmarshal :: "string \<Rightarrow> error + NpmLockfile"
  semver_StrictNewVersion :: "string \<Rightarrow> error + semver_Version"
  semver_NewConstraint :: "string \<Rightarrow> error + semver_Constraints"

subsection \<open>detectNextjsAdaptorVersion\<close>

text \<open>
  \<open>rewrite_clause\<close> is the body of the loop over the clauses of the rendered constraint:
  it returns the string that the iteration appends to \<open>newConstraints\<close>.  The second test
  reads \<open>versionSplit[0]\<close> after the first assignment, as the source does.
\<close>

definition rewrite_clause :: "string \<Rightarrow> string" where
  "rewrite_clause constraint =
     (let versionSplit = strings_Split constraint ''.'' in
      if length versionSplit = 3
      then
        let v0 = versionSplit ! 0;
            v1 = (if strings_HasPrefix v0 ''<'' \<and> \<not> strings_HasPrefix v0 ''<='' \<and>
                     \<not> strings_HasPrefix (versionSplit ! (length versionSplit - 1)) ''0''
                  then ''<='' @ drop 1 v0 else v0);
            v2 = (if strings_HasPrefix v1 ''>'' \<and> \<not> strings_HasPrefix v1 ''>=''
                  then ''>='' @ drop 1 v1 else v1)
        in strings_Join (take (length versionSplit - 1) (versionSplit[0 := v2])) ''.''
      else strings_Join versionSplit ''.'')"

definition detectNextjsAdaptorVersion :: "world \<Rightarrow> string \<Rightarrow> string" where
  "detectNextjsAdaptorVersion w njsVersion =
     (case semver_StrictNewVersion w njsVersion of
        Inr version \<Rightarrow>
          strconv_FormatUint10 (Major version) @ ''.'' @ strconv_FormatUint10 (Minor version)
      | Inl _ \<Rightarrow>
          (case semver_NewConstraint w njsVersion of
             Inl _ \<Rightarrow> ''latest''
           | Inr constraint \<Rightarrow>
               strings_Join (map rewrite_clause (strings_Split (String constraint) '' '')) '' ''))"

subsection \<open>Version\<close>

definition possibleLockfileFilenames :: "string list" where
  "possibleLockfileFilenames =
     [''pnpm-lock.yaml'', ''yarn.lock'', ''npm-shrinkwrap.json'', ''package-lock.json'']"

text \<open>
  The yarn branch.  \<open>scan_lines\<close> is the inner loop over the lines of one block: at the
  first line containing \<open>version\<close> it returns the second field of the line, trimmed of
  double quotes; indexing a slice of fewer than two fields panics.  \<open>None\<close> means that the
  loop ended without returning.  \<open>scan_blocks\<close> is the outer loop over the blocks.
\<close>

fun scan_lines :: "string list \<Rightarrow> (error + string) option" where
  "scan_lines [] = None"
| "scan_lines (line # rest) =
     (if strings_Contains line ''version''
      then (case strings_Fields line of
              f0 # f1 # _ \<Rightarrow> Some (Inr (strings_Trim f1 [CHR 0x22]))
            | _ \<Rightarrow> Some (Inl (Panic ''index out of range [1]'')))
      else scan_lines rest)"

fun scan_blocks :: "PackageJSON \<Rightarrow> string list \<Rightarrow> (error + string) option" where
  "scan_blocks pjs [] = None"
| "scan_blocks pjs (dependency # rest) =
     (if strings_Contains dependency ''next@'' \<and>
         strings_Contains dependency (lookup_string (Dependencies pjs) ''next'')
      then (case scan_lines (strings_Split dependency [CHR 0x0A]) of
              Some r \<Rightarrow> Some r
            | None \<Rightarrow> scan_blocks pjs rest)
      else scan_blocks pjs rest)"

text \<open>
  \<open>lockfile_step\<close> is the body executed for a lock file that was read without error:
  the three tests on the file name in the order of the source.  \<open>None\<close> means that no
  \<open>return\<close> was reached and the loop goes on with the next file name.
  \<open>read_lockfile\<close> is the read of the file \<open>filename\<close> under the application root.
\<close>

definition pnpm_branch :: "world \<Rightarrow> string \<Rightarrow> string \<Rightarrow> (error + string) option" where
  "pnpm_branch w filename rawPackageLock =
     (if filename = ''pnpm-lock.yaml''
      then (case yaml_Unmarshal w rawPackageLock of
              Inr lockfile \<Rightarrow>
                (case strings_Split (lookup_version (pnpm_Dependencies lockfile) ''next'') ''('' of
                   x # _ \<Rightarrow> Some (Inr x)
                 | [] \<Rightarrow> Some (Inl (Panic ''index out of range [0]'')))
            | Inl _ \<Rightarrow> None)
      else None)"

definition yarn_branch :: "PackageJSON \<Rightarrow> string \<Rightarrow> string \<Rightarrow> (error + string) option" where
  "yarn_branch pjs filename rawPackageLock =
     (if filename = ''yarn.lock''
      then scan_blocks pjs (strings_Split rawPackageLock [CHR 0x0A, CHR 0x0A])
      else None)"

definition npm_branch :: "world \<Rightarrow> string \<Rightarrow> string \<Rightarrow> (error + string) option" where
  "npm_branch w filename rawPackageLock =
     (if filename = ''npm-shrinkwrap.json'' \<or> filename = ''package-lock.json''
      then (case json_Unmarshal w rawPackageLock of
              Inr lockfile \<Rightarrow> Some (Inr (lookup_version (Packages lockfile) ''node_modules/next''))
            | Inl _ \<Rightarrow> None)
      else None)"

definition lockfile_step ::
  "world \<Rightarrow> PackageJSON \<Rightarrow> string \<Rightarrow> string \<Rightarrow> (error + string) option" where
  "lockfile_step w pjs filename rawPackageLock =
     (case pnpm_branch w filename rawPackageLock of
        Some r \<Rightarrow> Some r
      | None \<Rightarrow>
          (case yarn_branch pjs filename rawPackageLock of
             Some r \<Rightarrow> Some r
           | None \<Rightarrow> npm_branch w filename rawPackageLock))"

definition read_lockfile :: "world \<Rightarrow> Context \<Rightarrow> string \<Rightarrow> error + string" where
  "read_lockfile w ctx filename = os_ReadFile w (filepath_Join w (ApplicationRoot ctx) filename)"

fun Version_loop :: "world \<Rightarrow> Context \<Rightarrow> PackageJSON \<Rightarrow> string list \<Rightarrow> error + string" where
  "Version_loop w ctx pjs [] = Inr (lookup_string (Dependencies pjs) ''next'')"
| "Version_loop w ctx pjs (filename # rest) =
     (case read_lockfile w ctx filename of
        Inr rawPackageLock \<Rightarrow>
          (case lockfile_step w pjs filename rawPackageLock of
             Some r \<Rightarrow> r
           | None \<Rightarrow> Version_loop w ctx pjs rest)
      | Inl _ \<Rightarrow> Version_loop w ctx pjs rest)"

definition Version :: "world \<Rightarrow> Context \<Rightarrow> PackageJSON \<Rightarrow> error + string" where
  "Version w ctx pjs = Version_loop w ctx pjs possibleLockfileFilenames"

subsection \<open>The resolution as the specification words it\<close>

text \<open>
  The specification's reading of \<open>Version\<close>, for comparison with the code: each lock file
  yields a match, the empty string standing for no match (file missing, not parseable, or
  without an entry); the result is the first non-empty match in the order of the file
  names, and the manifest's declared specifier when there is none.
\<close>

definition spec_match :: "world \<Rightarrow> Context \<Rightarrow> PackageJSON \<Rightarrow> string \<Rightarrow> string" where
  "spec_match w ctx pjs filename =
     (case read_lockfile w ctx filename of
        Inl _ \<Rightarrow> []
      | Inr raw \<Rightarrow>
          (case lockfile_step w pjs filename raw of Some (Inr v) \<Rightarrow> v | _ \<Rightarrow> []))"

fun spec_first_match :: "world \<Rightarrow> Context \<Rightarrow> PackageJSON \<Rightarrow> string list \<Rightarrow> string" where
  "spec_first_match w ctx pjs [] = lookup_string (Dependencies pjs) ''next''"
| "spec_first_match w ctx pjs (filename # rest) =
     (if spec_match w ctx pjs filename \<noteq> [] then spec_match w ctx pjs filename
      else spec_first_match w ctx pjs rest)"

definition spec_resolveInstalledVersion :: "world \<Rightarrow> Context \<Rightarrow> PackageJSON \<Rightarrow> string" where
  "spec_resolveInstalledVersion w ctx pjs = spec_first_match w ctx pjs possibleLockfileFilenames"

text \<open>
  When the loop of \<open>Version\<close> passes over a lock file: the pnpm and npm files when they
  cannot be read or decoded, \<open>yarn.lock\<close> when it cannot be read or no selected block has
  a line containing \<open>version\<close>.
\<close>

definition pnpm_skipped :: "world \<Rightarrow> Context \<Rightarrow> bool" where
  "pnpm_skipped w ctx =
     (case read_lockfile w ctx ''pnpm-lock.yaml'' of
        Inl _ \<Rightarrow> True
      | Inr raw \<Rightarrow> (case yaml_Unmarshal w raw of Inl _ \<Rightarrow> True | Inr _ \<Rightarrow> False))"

definition yarn_skipped :: "world \<Rightarrow> Context \<Rightarrow> PackageJSON \<Rightarrow> bool" where
  "yarn_skipped w ctx pjs =
     (case read_lockfile w ctx ''yarn.lock'' of
        Inl _ \<Rightarrow> True
      | Inr raw \<Rightarrow> scan_blocks pjs (strings_Split raw [CHR 0x0A, CHR 0x0A]) = None)"

definition npm_skipped :: "world \<Rightarrow> Context \<Rightarrow> string \<Rightarrow> bool" where
  "npm_skipped w ctx filename =
     (case read_lockfile w ctx filename of
        Inl _ \<Rightarrow> True
      | Inr raw \<Rightarrow> (case json_Unmarshal w raw of Inl _ \<Rightarrow> True | Inr _ \<Rightarrow> False))"

subsection \<open>Example inputs\<close>

text \<open>
  A small world for concrete runs: the files of the application root are given by a table
  from path to content, the decoders by tables from content to decoded struct, paths are
  joined with a slash, and the two parsers of \<open>semver\<close> know the strings of the
  examples (a constraint renders as it was written; the strict parser refuses a number
  written with a leading zero, the constraint parser reads it).
\<close>

definition example_StrictNewVersion :: "string \<Rightarrow> error + semver_Version" where
  "example_StrictNewVersion s =
     (if s = ''14.2.3''
      then Inr \<lparr>Major = 14, Minor = 2, Patch = 3, Prerelease = [], Metadata = []\<rparr>
      else Inl (Errorf ''Invalid Semantic Version''))"

definition example_NewConstraint :: "string \<Rightarrow> error + semver_Constraints" where
  "example_NewConstraint s =
     (if s \<in> {''<14.0.15'', ''>13.0.2'', ''>13.0.2 <14.0.15'', ''^14'', ''<14.0.015''}
      then Inr \<lparr>String = s\<rparr>
      else Inl (Errorf ''improper constraint''))"

definition example_world ::
  "(string \<times> string) list \<Rightarrow> (string \<times> PnpmLockfile) list \<Rightarrow> (string \<times> NpmLockfile) list \<Rightarrow>
   world" where
  "example_world files yamls jsons =
     \<lparr>os_ReadFile = (\<lambda>path. case map_of files path of
                        None \<Rightarrow> Inl (OSError ErrNotExist) | Some content \<Rightarrow> Inr content),
      filepath_Join = (\<lambda>dir name. dir @ ''/'' @ name),
      yaml_Unmarshal = (\<lambda>raw. case map_of yamls raw of
                        None \<Rightarrow> Inl (Errorf ''yaml: unmarshal errors'') | Some l \<Rightarrow> Inr l),
      json_Unmarshal = (\<lambda>raw. case map_of jsons raw of
                        None \<Rightarrow> Inl (Errorf ''invalid character'') | Some l \<Rightarrow> Inr l),
      semver_StrictNewVersion = example_StrictNewVersion,
      semver_NewConstraint = example_NewConstraint\<rparr>"

definition example_ctx :: Context where
  "example_ctx = \<lparr>ApplicationRoot = ''/workspace''\<rparr>"

text \<open>
  Lock files and manifests for concrete runs.  The decoders are tables, so the content of a
  pnpm or npm lock file only has to be the key under which its decoded struct is stored;
  the content of \<open>yarn.lock\<close> is scanned by the program itself and is written out.
\<close>

definition example_pnpm_lock :: string where
  "example_pnpm_lock = ''dependencies: {next: {version: 14.2.3(react@18.2.0)}}''"

definition example_pnpm_parsed :: PnpmLockfile where
  "example_pnpm_parsed =
     \<lparr>pnpm_Dependencies = [''next'' \<mapsto> \<lparr>entry_Version = ''14.2.3(react@18.2.0)''\<rparr>]\<rparr>"

definition example_pnpm_lock_without_next :: string where
  "example_pnpm_lock_without_next = ''dependencies: {react: {version: 18.2.0}}''"

definition example_pnpm_parsed_without_next :: PnpmLockfile where
  "example_pnpm_parsed_without_next =
     \<lparr>pnpm_Dependencies = [''react'' \<mapsto> \<lparr>entry_Version = ''18.2.0''\<rparr>]\<rparr>"

definition example_package_lock :: string where
  "example_package_lock = ''{packages: {node_modules/next: {version: 14.2.3}}}''"

definition example_package_lock_parsed :: NpmLockfile where
  "example_package_lock_parsed =
     \<lparr>Packages = [''node_modules/next'' \<mapsto> \<lparr>entry_Version = ''14.2.3''\<rparr>]\<rparr>"

definition example_yarn_lock :: string where
  "example_yarn_lock =
     ''next@^13.0.0:'' @ [CHR 0x0A] @
     ''  version '' @ [CHR 0x22] @ ''13.5.6'' @ [CHR 0x22] @ [CHR 0x0A, CHR 0x0A] @
     ''next@^14.0.0:'' @ [CHR 0x0A] @
     ''  version '' @ [CHR 0x22] @ ''14.2.3'' @ [CHR 0x22] @ [CHR 0x0A]"

definition example_yarn_lock_one_field :: string where
  "example_yarn_lock_one_field =
     ''version-next@^14.0.0:'' @ [CHR 0x0A] @
     ''  version '' @ [CHR 0x22] @ ''1.0.0'' @ [CHR 0x22] @ [CHR 0x0A]"

definition example_pjs :: PackageJSON where
  "example_pjs = \<lparr>Dependencies = [''next'' \<mapsto> ''^14.0.0'']\<rparr>"

definition example_pjs_without_next :: PackageJSON where
  "example_pjs_without_next = \<lparr>Dependencies = [''react'' \<mapsto> ''^18.2.0'']\<rparr>"

section \<open>Properties of the configuration validator\<close>

lemma cpu_check:
  "(CPU rc \<noteq> None \<and> \<not> (f32_le (Finite 1) (the (CPU rc)) \<and> f32_le (the (CPU rc)) (Finite 8)))
   = (\<not> cpu_in_range rc)"
  by (cases "CPU rc"; simp add: cpu_in_range_def split: float32.splits)

lemma int32_check:
  "(v \<noteq> None \<and> \<not> (lo \<le>s the v \<and> the v \<le>s hi)) = (\<not> int32_in_range (sint lo) (sint hi) v)"
  by (cases v; simp add: int32_in_range_def word_sle_eq)

lemma RunConfig_checks:
  assumes "unmarshal rc0 = (rc, None)"
  shows "RunConfig_UnmarshalYAML unmarshal rc0 =
    (rc, if \<not> cpu_in_range rc
         then Some (Errorf ''runConfig.cpu field is not in valid range of [1, 8]'')
         else if \<not> int32_in_range 512 32768 (MemoryMiB rc)
         then Some (Errorf ''runConfig.memory field is not in valid range of [512, 32768]'')
         else if \<not> int32_in_range 1 1000 (Concurrency rc)
         then Some (Errorf ''runConfig.concurrency field is not in valid range of [1, 1000]'')
         else if \<not> int32_in_range 1 100 (MaxInstances rc)
         then Some (Errorf ''runConfig.maxInstances field is not in valid range of [1, 100]'')
         else if \<not> int32_in_range 0 100 (MinInstances rc)
         then Some (Errorf ''runConfig.minInstances field is not in valid range of [1, 100]'')
         else None)"
proof -
  have m: "(MemoryMiB rc \<noteq> None \<and>
            \<not> (512 \<le>s the (MemoryMiB rc) \<and> the (MemoryMiB rc) \<le>s 32768))
           = (\<not> int32_in_range 512 32768 (MemoryMiB rc))"
    using int32_check [of "MemoryMiB rc" 512 32768] by simp
  have c: "(Concurrency rc \<noteq> None \<and>
            \<not> (1 \<le>s the (Concurrency rc) \<and> the (Concurrency rc) \<le>s 1000))
           = (\<not> int32_in_range 1 1000 (Concurrency rc))"
    using int32_check [of "Concurrency rc" 1 1000] by simp
  have x: "(MaxInstances rc \<noteq> None \<and>
            \<not> (1 \<le>s the (MaxInstances rc) \<and> the (MaxInstances rc) \<le>s 100))
           = (\<not> int32_in_range 1 100 (MaxInstances rc))"
    using int32_check [of "MaxInstances rc" 1 100] by simp
  have n: "(MinInstances rc \<noteq> None \<and>
            \<not> (0 \<le>s the (MinInstances rc) \<and> the (MinInstances rc) \<le>s 100))
           = (\<not> int32_in_range 0 100 (MinInstances rc))"
    using int32_check [of "MinInstances rc" 0 100] by simp
  show ?thesis
    unfolding RunConfig_UnmarshalYAML_def assms prod.case option.case cpu_check m c x n
    by simp
qed

text \<open>
  Claim C3.  Let the decoder fill the run configuration \<open>rc\<close> without error.  If every
  present field is within its range (CPU in [1, 8], MemoryMiB in [512, 32768], Concurrency
  in [1, 1000], MaxInstances in [1, 100], MinInstances in [0, 100]), the hook returns no
  error and leaves exactly the decoded values in place.  If some present field is out of
  range the hook returns an error, and the message is the one of the first field out of
  range, in the order CPU, memory, concurrency, maxInstances, minInstances; so with one
  field out of range the error names that field.
\<close>

theorem RunConfig_validation_bounds:
  assumes "unmarshal rc0 = (rc, None)"
  shows "(cpu_in_range rc \<and> int32_in_range 512 32768 (MemoryMiB rc) \<and>
          int32_in_range 1 1000 (Concurrency rc) \<and> int32_in_range 1 100 (MaxInstances rc) \<and>
          int32_in_range 0 100 (MinInstances rc) \<longrightarrow>
            RunConfig_UnmarshalYAML unmarshal rc0 = (rc, None))
       \<and> (\<not> (cpu_in_range rc \<and> int32_in_range 512 32768 (MemoryMiB rc) \<and>
          int32_in_range 1 1000 (Concurrency rc) \<and> int32_in_range 1 100 (MaxInstances rc) \<and>
          int32_in_range 0 100 (MinInstances rc)) \<longrightarrow>
            fst (RunConfig_UnmarshalYAML unmarshal rc0) = rc \<and>
            snd (RunConfig_UnmarshalYAML unmarshal rc0) \<noteq> None)
       \<and> (\<not> cpu_in_range rc \<longrightarrow>
            RunConfig_UnmarshalYAML unmarshal rc0 =
              (rc, Some (Errorf ''runConfig.cpu field is not in valid range of [1, 8]'')))
       \<and> (cpu_in_range rc \<and> \<not> int32_in_range 512 32768 (MemoryMiB rc) \<longrightarrow>
            RunConfig_UnmarshalYAML unmarshal rc0 =
              (rc, Some (Errorf ''runConfig.memory field is not in valid range of [512, 32768]'')))
       \<and> (cpu_in_range rc \<and> int32_in_range 512 32768 (MemoryMiB rc) \<and>
          \<not> int32_in_range 1 1000 (Concurrency rc) \<longrightarrow>
            RunConfig_UnmarshalYAML unmarshal rc0 =
              (rc, Some (Errorf ''runConfig.concurrency field is not in valid range of [1, 1000]'')))
       \<and> (cpu_in_range rc \<and> int32_in_range 512 32768 (MemoryMiB rc) \<and>
          int32_in_range 1 1000 (Concurrency rc) \<and> \<not> int32_in_range 1 100 (MaxInstances rc) \<longrightarrow>
            RunConfig_UnmarshalYAML unmarshal rc0 =
              (rc, Some (Errorf ''runConfig.maxInstances field is not in valid range of [1, 100]'')))
       \<and> (cpu_in_range rc \<and> int32_in_range 512 32768 (MemoryMiB rc) \<and>
          int32_in_range 1 1000 (Concurrency rc) \<and> int32_in_range 1 100 (MaxInstances rc) \<and>
          \<not> int32_in_range 0 100 (MinInstances rc) \<longrightarrow>
            RunConfig_UnmarshalYAML unmarshal rc0 =
              (rc, Some (Errorf ''runConfig.minInstances field is not in valid range of [1, 100]'')))"
  unfolding RunConfig_checks [of unmarshal rc0 rc, OF assms] by simp

theorem RunConfig_validation_bounds_witness:
  "RunConfig_UnmarshalYAML
     (\<lambda>_. (\<lparr>CPU = Some (Finite 2), MemoryMiB = Some 1024, Concurrency = Some 80,
             MaxInstances = Some 10, MinInstances = Some 0\<rparr>, None)) empty_RunConfig
   = (\<lparr>CPU = Some (Finite 2), MemoryMiB = Some 1024, Concurrency = Some 80,
        MaxInstances = Some 10, MinInstances = Some 0\<rparr>, None)
   \<and> RunConfig_UnmarshalYAML
     (\<lambda>_. (\<lparr>CPU = Some (Finite 9), MemoryMiB = None, Concurrency = None,
             MaxInstances = None, MinInstances = None\<rparr>, None)) empty_RunConfig
   = (\<lparr>CPU = Some (Finite 9), MemoryMiB = None, Concurrency = None,
        MaxInstances = None, MinInstances = None\<rparr>,
      Some (Errorf ''runConfig.cpu field is not in valid range of [1, 8]''))
   \<and> RunConfig_UnmarshalYAML
     (\<lambda>_. (\<lparr>CPU = Some (Finite 0.5), MemoryMiB = None, Concurrency = None,
             MaxInstances = None, MinInstances = None\<rparr>, None)) empty_RunConfig
   = (\<lparr>CPU = Some (Finite 0.5), MemoryMiB = None, Concurrency = None,
        MaxInstances = None, MinInstances = None\<rparr>,
      Some (Errorf ''runConfig.cpu field is not in valid range of [1, 8]''))
   \<and> RunConfig_UnmarshalYAML
     (\<lambda>_. (\<lparr>CPU = None, MemoryMiB = None, Concurrency = None,
             MaxInstances = None, MinInstances = Some (- 1)\<rparr>, None)) empty_RunConfig
   = (\<lparr>CPU = None, MemoryMiB = None, Concurrency = None,
        MaxInstances = None, MinInstances = Some (- 1)\<rparr>,
      Some (Errorf ''runConfig.minInstances field is not in valid range of [1, 100]''))"
  using
    RunConfig_validation_bounds [of "\<lambda>_. (\<lparr>CPU = Some (Finite 2), MemoryMiB = Some 1024,
       Concurrency = Some 80, MaxInstances = Some 10, MinInstances = Some 0\<rparr>, None)"
       empty_RunConfig]
    RunConfig_validation_bounds [of "\<lambda>_. (\<lparr>CPU = Some (Finite 9), MemoryMiB = None,
       Concurrency = None, MaxInstances = None, MinInstances = None\<rparr>, None)"
       empty_RunConfig]
    RunConfig_validation_bounds [of "\<lambda>_. (\<lparr>CPU = Some (Finite 0.5), MemoryMiB = None,
       Concurrency = None, MaxInstances = None, MinInstances = None\<rparr>, None)"
       empty_RunConfig]
    RunConfig_validation_bounds [of "\<lambda>_. (\<lparr>CPU = None, MemoryMiB = None,
       Concurrency = None, MaxInstances = None, MinInstances = Some (- 1)\<rparr>, None)"
       empty_RunConfig]
  by (simp add: cpu_in_range_def int32_in_range_def)

lemma valid_tag: "lookup_bool validAvailabilityValues val = (val \<in> {''BUILD'', ''RUNTIME''})"
  by (simp add: lookup_bool_def validAvailabilityValues_def)

lemma check_availability_None:
  "(check_availability tags = None) = (set tags \<subseteq> {''BUILD'', ''RUNTIME''})"
  by (induction tags) (auto simp: valid_tag)

lemma EnvironmentVariable_checks:
  assumes "unmarshal ev0 = (ev, None)"
  shows "EnvironmentVariable_UnmarshalYAML unmarshal ev0 =
     (ev, if Value ev \<noteq> [] \<and> Secret ev \<noteq> []
          then Some (Errorf ''both 'value' and 'secret' fields cannot be present'')
          else if Value ev = [] \<and> Secret ev = []
          then Some (Errorf ''either 'value' or 'secret' field is required'')
          else check_availability (Availability ev))"
  unfolding EnvironmentVariable_UnmarshalYAML_def assms by simp

text \<open>
  Claim C4.  Let the decoder fill the entry \<open>ev\<close> without error; a field is set when its
  string is not empty, the only notion of presence that the struct has.  The hook rejects
  the entry when value and secret are both set, rejects it when neither is set, rejects it
  when some availability tag is neither BUILD nor RUNTIME, and accepts it, leaving the
  decoded entry in place, when exactly one of value and secret is set and every tag (there
  may be none) is BUILD or RUNTIME.
\<close>

theorem EnvironmentVariable_validation:
  assumes "unmarshal ev0 = (ev, None)"
  shows "(Value ev \<noteq> [] \<and> Secret ev \<noteq> [] \<longrightarrow>
            EnvironmentVariable_UnmarshalYAML unmarshal ev0 =
              (ev, Some (Errorf ''both 'value' and 'secret' fields cannot be present'')))
       \<and> (Value ev = [] \<and> Secret ev = [] \<longrightarrow>
            EnvironmentVariable_UnmarshalYAML unmarshal ev0 =
              (ev, Some (Errorf ''either 'value' or 'secret' field is required'')))
       \<and> (\<not> set (Availability ev) \<subseteq> {''BUILD'', ''RUNTIME''} \<longrightarrow>
            snd (EnvironmentVariable_UnmarshalYAML unmarshal ev0) \<noteq> None)
       \<and> ((Value ev = []) \<noteq> (Secret ev = []) \<and>
          set (Availability ev) \<subseteq> {''BUILD'', ''RUNTIME''} \<longrightarrow>
            EnvironmentVariable_UnmarshalYAML unmarshal ev0 = (ev, None))"
  using check_availability_None [of "Availability ev"]
  by (auto simp: EnvironmentVariable_checks [of unmarshal ev0 ev, OF assms])

theorem EnvironmentVariable_validation_witness:
  "EnvironmentVariable_UnmarshalYAML
     (\<lambda>_. (\<lparr>Variable = ''K'', Value = ''x'', Secret = ''y'', Availability = []\<rparr>, None))
     \<lparr>Variable = [], Value = [], Secret = [], Availability = []\<rparr>
   = (\<lparr>Variable = ''K'', Value = ''x'', Secret = ''y'', Availability = []\<rparr>,
      Some (Errorf ''both 'value' and 'secret' fields cannot be present''))
   \<and> EnvironmentVariable_UnmarshalYAML
     (\<lambda>_. (\<lparr>Variable = ''K'', Value = [], Secret = [], Availability = []\<rparr>, None))
     \<lparr>Variable = [], Value = [], Secret = [], Availability = []\<rparr>
   = (\<lparr>Variable = ''K'', Value = [], Secret = [], Availability = []\<rparr>,
      Some (Errorf ''either 'value' or 'secret' field is required''))
   \<and> EnvironmentVariable_UnmarshalYAML
     (\<lambda>_. (\<lparr>Variable = ''K'', Value = ''x'', Secret = [], Availability = [''BUILD'']\<rparr>, None))
     \<lparr>Variable = [], Value = [], Secret = [], Availability = []\<rparr>
   = (\<lparr>Variable = ''K'', Value = ''x'', Secret = [], Availability = [''BUILD'']\<rparr>, None)
   \<and> snd (EnvironmentVariable_UnmarshalYAML
     (\<lambda>_. (\<lparr>Variable = ''K'', Value = ''x'', Secret = [], Availability = [''STAGING'']\<rparr>, None))
     \<lparr>Variable = [], Value = [], Secret = [], Availability = []\<rparr>) \<noteq> None"
  using
    EnvironmentVariable_validation [of "\<lambda>_. (\<lparr>Variable = ''K'', Value = ''x'', Secret = ''y'',
       Availability = []\<rparr>, None)" "\<lparr>Variable = [], Value = [], Secret = [], Availability = []\<rparr>"]
    EnvironmentVariable_validation [of "\<lambda>_. (\<lparr>Variable = ''K'', Value = [], Secret = [],
       Availability = []\<rparr>, None)" "\<lparr>Variable = [], Value = [], Secret = [], Availability = []\<rparr>"]
    EnvironmentVariable_validation [of "\<lambda>_. (\<lparr>Variable = ''K'', Value = ''x'', Secret = [],
       Availability = [''BUILD'']\<rparr>, None)" "\<lparr>Variable = [], Value = [], Secret = [], Availability = []\<rparr>"]
    EnvironmentVariable_validation [of "\<lambda>_. (\<lparr>Variable = ''K'', Value = ''x'', Secret = [],
       Availability = [''STAGING'']\<rparr>, None)" "\<lparr>Variable = [], Value = [], Secret = [], Availability = []\<rparr>"]
  by simp

text \<open>
  Claim C10.  Presence of value and secret is decided by the strings being non-empty.  An
  entry decoded with an empty value and an empty secret is rejected with the message that
  one of them is required; the struct is the same whether the document wrote an empty value
  or left the field out, so the two cases cannot differ.  An entry with an empty value and
  a non-empty secret passes both presence tests: its result is that of the availability
  check alone, and it is accepted when every tag is BUILD or RUNTIME.
\<close>

theorem EnvironmentVariable_presence_by_emptiness:
  assumes "unmarshal ev0 = (ev, None)" and "Value ev = []"
  shows "(Secret ev = [] \<longrightarrow>
            EnvironmentVariable_UnmarshalYAML unmarshal ev0 =
              (ev, Some (Errorf ''either 'value' or 'secret' field is required'')))
       \<and> (Secret ev \<noteq> [] \<longrightarrow>
            EnvironmentVariable_UnmarshalYAML unmarshal ev0 =
              (ev, check_availability (Availability ev)))
       \<and> (Secret ev \<noteq> [] \<and> set (Availability ev) \<subseteq> {''BUILD'', ''RUNTIME''} \<longrightarrow>
            EnvironmentVariable_UnmarshalYAML unmarshal ev0 = (ev, None))"
  using check_availability_None [of "Availability ev"] assms(2)
  by (auto simp: EnvironmentVariable_checks [of unmarshal ev0 ev, OF assms(1)])

theorem EnvironmentVariable_presence_by_emptiness_witness:
  "EnvironmentVariable_UnmarshalYAML
     (\<lambda>_. (\<lparr>Variable = ''K'', Value = [], Secret = [], Availability = [''BUILD'']\<rparr>, None))
     \<lparr>Variable = [], Value = [], Secret = [], Availability = []\<rparr>
   = (\<lparr>Variable = ''K'', Value = [], Secret = [], Availability = [''BUILD'']\<rparr>,
      Some (Errorf ''either 'value' or 'secret' field is required''))
   \<and> EnvironmentVariable_UnmarshalYAML
     (\<lambda>_. (\<lparr>Variable = ''K'', Value = [], Secret = ''s'', Availability = [''RUNTIME'']\<rparr>, None))
     \<lparr>Variable = [], Value = [], Secret = [], Availability = []\<rparr>
   = (\<lparr>Variable = ''K'', Value = [], Secret = ''s'', Availability = [''RUNTIME'']\<rparr>, None)"
  using
    EnvironmentVariable_presence_by_emptiness [of "\<lambda>_. (\<lparr>Variable = ''K'', Value = [],
       Secret = [], Availability = [''BUILD'']\<rparr>, None)"
       "\<lparr>Variable = [], Value = [], Secret = [], Availability = []\<rparr>"]
    EnvironmentVariable_presence_by_emptiness [of "\<lambda>_. (\<lparr>Variable = ''K'', Value = [],
       Secret = ''s'', Availability = [''RUNTIME'']\<rparr>, None)"
       "\<lparr>Variable = [], Value = [], Secret = [], Availability = []\<rparr>"]
  by (simp add: valid_tag)

text \<open>
  Claim C2.  When reading the file fails because it does not exist, the function returns
  the empty schema (no run-configuration field present, no environment variable) and no
  error.  When reading fails for any other reason it returns an error: the read error
  wrapped behind the message that names the path.
\<close>

theorem ReadAndValidate_missing_file:
  "(readFile filePath = Inl err \<and> os_IsNotExist err \<longrightarrow>
      ReadAndValidateAppHostingSchemaFromFile readFile unmarshal filePath =
        (\<lparr>RunConfig = \<lparr>CPU = None, MemoryMiB = None, Concurrency = None,
                        MaxInstances = None, MinInstances = None\<rparr>, Env = []\<rparr>, None))
   \<and> (readFile filePath = Inl err \<and> \<not> os_IsNotExist err \<longrightarrow>
      snd (ReadAndValidateAppHostingSchemaFromFile readFile unmarshal filePath) =
        Some (Wrapped (''reading apphosting config at '' @ filePath) err))"
  by (simp add: ReadAndValidateAppHostingSchemaFromFile_def empty_AppHostingSchema_def
      empty_RunConfig_def)

theorem ReadAndValidate_missing_file_witness:
  "ReadAndValidateAppHostingSchemaFromFile (\<lambda>_. Inl (OSError ErrNotExist))
     (\<lambda>buf a. (a, None)) ''/nonexistent/path'' =
     (\<lparr>RunConfig = \<lparr>CPU = None, MemoryMiB = None, Concurrency = None,
                     MaxInstances = None, MinInstances = None\<rparr>, Env = []\<rparr>, None)
   \<and> snd (ReadAndValidateAppHostingSchemaFromFile (\<lambda>_. Inl (OSError (ErrOther ''permission denied'')))
     (\<lambda>buf a. (a, None)) ''/etc/shadow'') =
     Some (Wrapped ''reading apphosting config at /etc/shadow'' (OSError (ErrOther ''permission denied'')))"
  using
    ReadAndValidate_missing_file [of "\<lambda>_. Inl (OSError ErrNotExist)" "''/nonexistent/path''"
      "OSError ErrNotExist" "\<lambda>buf a. (a, None)"]
    ReadAndValidate_missing_file [of "\<lambda>_. Inl (OSError (ErrOther ''permission denied''))"
      "''/etc/shadow''" "OSError (ErrOther ''permission denied'')" "\<lambda>buf a. (a, None)"]
  by simp

section \<open>Properties of the string functions\<close>

lemma split_from_not_Nil: "split_from sep cur s \<noteq> []"
  by (induction sep cur s rule: split_from.induct) auto

lemma HasPrefix_single: "strings_HasPrefix (x # s) [c] = (x = c)"
  by (simp add: strings_HasPrefix_def)

lemma split_from_single_none:
  "c \<notin> set a \<Longrightarrow> split_from [c] cur a = [rev cur @ a]"
  by (induction a arbitrary: cur) (auto simp: HasPrefix_single)

lemma split_from_single_cut:
  "c \<notin> set a \<Longrightarrow> split_from [c] cur (a @ c # rest) = (rev cur @ a) # split_from [c] [] rest"
  by (induction a arbitrary: cur) (auto simp: HasPrefix_single)

lemma split_from_single_hd:
  "hd (split_from [c] cur s) = rev cur @ takeWhile (\<lambda>x. x \<noteq> c) s"
  by (induction s arbitrary: cur) (auto simp: HasPrefix_single)

lemma strings_Join_Cons:
  "strings_Join (x # xs) sep = (if xs = [] then x else x @ sep @ strings_Join xs sep)"
  by (cases xs) simp_all

lemma Join_split_from: "strings_Join (split_from sep cur s) sep = rev cur @ s"
proof (induction sep cur s rule: split_from.induct)
  case (1 sep cur)
  show ?case by simp
next
  case (2 sep cur c s)
  show ?case
  proof (cases "sep \<noteq> [] \<and> strings_HasPrefix (c # s) sep")
    case True
    then have "c # s = sep @ drop (length sep) (c # s)"
      by (metis append_take_drop_id strings_HasPrefix_def)
    with True 2(1) show ?thesis
      by (simp add: strings_Join_Cons split_from_not_Nil)
  next
    case False
    with 2(2) show ?thesis by auto
  qed
qed

lemma Join_Split: "sep \<noteq> [] \<Longrightarrow> strings_Join (strings_Split s sep) sep = s"
  by (simp add: strings_Split_def Join_split_from)

lemma decimal_digits: "set (decimal n) \<subseteq> set ''0123456789''"
proof (induction n rule: decimal.induct)
  case (1 n)
  have d: "\<And>k. k < 10 \<Longrightarrow> ''0123456789'' ! k \<in> set ''0123456789''"
    by (rule nth_mem) simp
  show ?case
  proof (cases "n < 10")
    case True
    then show ?thesis using d [of n] by (subst decimal.simps) simp
  next
    case False
    then show ?thesis using 1 d [of "n mod 10"] by (subst decimal.simps) simp
  qed
qed

lemma decimal_not_Nil: "decimal n \<noteq> []"
  by (subst decimal.simps) simp

lemma digit_zero: "k < 10 \<Longrightarrow> (''0123456789'' ! k = CHR ''0'') = (k = 0)"
proof -
  assume "k < 10"
  then have "k \<in> {0, 1, 2, 3, 4, 5, 6, 7, 8, 9}" by auto
  then show ?thesis by auto
qed

lemma hd_decimal_zero: "(hd (decimal n) = CHR ''0'') = (n = 0)"
proof (induction n rule: decimal.induct)
  case (1 n)
  show ?case
  proof (cases "n < 10")
    case True
    then show ?thesis using digit_zero [of n] by (subst decimal.simps) simp
  next
    case False
    then have "n div 10 \<noteq> 0" by simp
    with False 1 show ?thesis
      by (subst decimal.simps) (simp add: decimal_not_Nil)
  qed
qed

lemma decimal_no_dot: "CHR ''.'' \<notin> set (decimal n)"
  using decimal_digits [of n] by auto

section \<open>Properties of the adaptor version\<close>

lemma decimal_Cons:
  "\<exists>h t. decimal n = h # t \<and> h \<noteq> CHR ''<'' \<and> h \<noteq> CHR ''>'' \<and> h \<noteq> CHR ''=''"
  using decimal_not_Nil [of n] decimal_digits [of n] by (cases "decimal n") auto

lemma Split_three:
  assumes "CHR ''.'' \<notin> set v0" and "CHR ''.'' \<notin> set pa"
  shows "strings_Split (v0 @ ''.'' @ decimal m @ ''.'' @ pa) ''.'' = [v0, decimal m, pa]"
proof -
  have "split_from ''.'' [] (v0 @ CHR ''.'' # (decimal m @ CHR ''.'' # pa))
        = v0 # split_from ''.'' [] (decimal m @ CHR ''.'' # pa)"
    using split_from_single_cut [where cur = "[]", OF assms(1)] by simp
  also have "split_from ''.'' [] (decimal m @ CHR ''.'' # pa)
        = decimal m # split_from ''.'' [] pa"
    using split_from_single_cut [where c = "CHR ''.''" and a = "decimal m" and cur = "[]",
        OF decimal_no_dot] by simp
  also have "split_from ''.'' [] pa = [pa]"
    using split_from_single_none [where cur = "[]", OF assms(2)] by simp
  finally show ?thesis by (simp add: strings_Split_def)
qed

lemma rewrite_clause_three:
  assumes "CHR ''.'' \<notin> set v0" and "CHR ''.'' \<notin> set sfx"
  shows "rewrite_clause (v0 @ ''.'' @ decimal m @ ''.'' @ decimal p @ sfx) =
     (let v1 = (if strings_HasPrefix v0 ''<'' \<and> \<not> strings_HasPrefix v0 ''<='' \<and> p \<noteq> 0
                then ''<='' @ drop 1 v0 else v0);
          v2 = (if strings_HasPrefix v1 ''>'' \<and> \<not> strings_HasPrefix v1 ''>=''
                then ''>='' @ drop 1 v1 else v1)
      in v2 @ ''.'' @ decimal m)"
proof -
  have z: "strings_HasPrefix (decimal p @ sfx) ''0'' = (p = 0)"
    using hd_decimal_zero [of p] decimal_not_Nil [of p]
    by (cases "decimal p") (simp_all add: strings_HasPrefix_def)
  have d: "CHR ''.'' \<notin> set (decimal p @ sfx)"
    using assms(2) decimal_no_dot [of p] by simp
  show ?thesis
    unfolding rewrite_clause_def Split_three [OF assms(1) d]
    by (simp add: Let_def z)
qed

lemma rewrite_clause_lt:
  assumes "CHR ''.'' \<notin> set sfx"
  shows "rewrite_clause (''<'' @ decimal M @ ''.'' @ decimal m @ ''.'' @ decimal p @ sfx) =
     (if p \<noteq> 0 then ''<='' else ''<'') @ decimal M @ ''.'' @ decimal m"
proof -
  obtain h t where d: "decimal M = h # t" "h \<noteq> CHR ''<''" "h \<noteq> CHR ''>''" "h \<noteq> CHR ''=''"
    using decimal_Cons by blast
  have "CHR ''.'' \<notin> set (''<'' @ decimal M)" using decimal_no_dot [of M] by simp
  from rewrite_clause_three [OF this assms, of m p] d show ?thesis
    by (auto simp: strings_HasPrefix_def Let_def)
qed

lemma rewrite_clause_gt:
  assumes "CHR ''.'' \<notin> set sfx"
  shows "rewrite_clause (''>'' @ decimal M @ ''.'' @ decimal m @ ''.'' @ decimal p @ sfx) =
     ''>='' @ decimal M @ ''.'' @ decimal m"
proof -
  obtain h t where d: "decimal M = h # t" "h \<noteq> CHR ''<''" "h \<noteq> CHR ''>''" "h \<noteq> CHR ''=''"
    using decimal_Cons by blast
  have "CHR ''.'' \<notin> set (''>'' @ decimal M)" using decimal_no_dot [of M] by simp
  from rewrite_clause_three [OF this assms, of m p] d show ?thesis
    by (auto simp: strings_HasPrefix_def Let_def)
qed

lemma rewrite_clause_other:
  assumes "op \<in> {[], ''='', ''!='', ''<='', ''>='', ''=<'', ''=>'', ''~'', ''~>'', ''^''}"
    and "CHR ''.'' \<notin> set sfx"
  shows "rewrite_clause (op @ decimal M @ ''.'' @ decimal m @ ''.'' @ decimal p @ sfx) =
     op @ decimal M @ ''.'' @ decimal m"
proof -
  obtain h t where d: "decimal M = h # t" "h \<noteq> CHR ''<''" "h \<noteq> CHR ''>''" "h \<noteq> CHR ''=''"
    using decimal_Cons by blast
  have "CHR ''.'' \<notin> set (op @ decimal M)" using decimal_no_dot [of M] assms by auto
  from rewrite_clause_three [OF this assms(2), of m p] d assms(1) show ?thesis
    by (elim insertE emptyE; simp add: strings_HasPrefix_def Let_def)
qed

lemma rewrite_clause_not_three:
  assumes "length (strings_Split clause ''.'') \<noteq> 3"
  shows "rewrite_clause clause = clause"
  using assms by (simp add: rewrite_clause_def Let_def Join_Split)

lemma Split_Join_single:
  assumes "clauses \<noteq> []" and "\<forall>x \<in> set clauses. c \<notin> set x"
  shows "strings_Split (strings_Join clauses [c]) [c] = clauses"
  using assms
proof (induction clauses)
  case Nil
  then show ?case by simp
next
  case (Cons x xs)
  show ?case
  proof (cases "xs = []")
    case True
    with Cons.prems show ?thesis
      using split_from_single_none [of c x "[]"] by (simp add: strings_Split_def)
  next
    case False
    with Cons have "split_from [c] [] (strings_Join xs [c]) = xs"
      by (simp add: strings_Split_def)
    with False Cons.prems show ?thesis
      using split_from_single_cut [of c x "[]" "strings_Join xs [c]"]
      by (simp add: strings_Split_def strings_Join_Cons)
  qed
qed

lemma detect_range:
  assumes "semver_StrictNewVersion w s = Inl e" and "semver_NewConstraint w s = Inr c"
  shows "detectNextjsAdaptorVersion w s =
           strings_Join (map rewrite_clause (strings_Split (String c) '' '')) '' ''"
  using assms by (simp add: detectNextjsAdaptorVersion_def)

text \<open>
  Claim C5.  If the strict parser accepts the string as a concrete version, the result is
  the decimal major number, a dot and the decimal minor number; patch, pre-release and
  build metadata do not occur in it.  If both the strict parser and the constraint parser
  reject the string, the result is \<open>latest\<close>.
\<close>

theorem detect_concrete_or_latest:
  "(semver_StrictNewVersion w s = Inr v \<longrightarrow>
      detectNextjsAdaptorVersion w s =
        decimal (unat (Major v)) @ ''.'' @ decimal (unat (Minor v)))
   \<and> (semver_StrictNewVersion w s = Inl e1 \<and> semver_NewConstraint w s = Inl e2 \<longrightarrow>
      detectNextjsAdaptorVersion w s = ''latest'')"
  by (simp add: detectNextjsAdaptorVersion_def strconv_FormatUint10_def)

theorem detect_concrete_or_latest_witness:
  "detectNextjsAdaptorVersion (example_world [] [] []) ''14.2.3'' = ''14.2''
   \<and> detectNextjsAdaptorVersion (example_world [] [] []) ''not-a-version'' = ''latest''"
  using
    detect_concrete_or_latest [of "example_world [] [] []" "''14.2.3''"
      "\<lparr>Major = 14, Minor = 2, Patch = 3, Prerelease = [], Metadata = []\<rparr>"]
    detect_concrete_or_latest [of "example_world [] [] []" "''not-a-version''" _
      "Errorf ''Invalid Semantic Version''" "Errorf ''improper constraint''"]
  by (simp add: example_world_def example_StrictNewVersion_def example_NewConstraint_def
      decimal.simps)

lemma detect_joined:
  assumes "semver_StrictNewVersion w s = Inl e" and "semver_NewConstraint w s = Inr c"
    and "String c = strings_Join clauses '' ''" and "clauses \<noteq> []"
    and "\<forall>x \<in> set clauses. CHR '' '' \<notin> set x"
  shows "detectNextjsAdaptorVersion w s = strings_Join (map rewrite_clause clauses) '' ''"
  using Split_Join_single [of clauses "CHR '' ''"] detect_range [of w s e c] assms by simp

lemma detect_single_clause:
  assumes "semver_StrictNewVersion w s = Inl e" and "semver_NewConstraint w s = Inr c"
    and "String c = clause" and "CHR '' '' \<notin> set clause"
  shows "detectNextjsAdaptorVersion w s = rewrite_clause clause"
  using detect_joined [of w s e c "[clause]"] assms by simp

lemma rewrite_example_lt: "rewrite_clause ''<14.0.15'' = ''<=14.0''"
  using rewrite_clause_lt [of "[]" 14 0 15] by (simp add: decimal.simps)

lemma rewrite_example_gt: "rewrite_clause ''>13.0.2'' = ''>=13.0''"
  using rewrite_clause_gt [of "[]" 13 0 2] by (simp add: decimal.simps)

text \<open>
  The rewriting on clauses in canonical spelling: a comparator followed by the decimal
  major, minor and patch numbers, separated by dots, where the patch number may carry a
  suffix without dots (a pre-release or build tag).  For such a clause: the strict
  upper bound \<open><\<close> becomes \<open><=\<close> exactly when the patch number is not zero, the strict
  lower bound \<open>>\<close> always becomes \<open>>=\<close>, every other comparator stays as it is, and the
  patch component is dropped in all cases.  A clause with fewer than three components is
  returned as it is.  When the string is not a concrete version and parses as a
  constraint, the clauses of its rendering (cut at single spaces) are rewritten one by one
  and joined with single spaces again.  With a parser that renders a constraint as it was
  written, \<open><14.0.15\<close> gives \<open><=14.0\<close> and \<open>>13.0.2\<close> gives \<open>>=13.0\<close>.
\<close>

lemma rewrite_canonical_clauses:
  "(CHR ''.'' \<notin> set sfx \<longrightarrow>
      rewrite_clause (''<'' @ decimal M @ ''.'' @ decimal m @ ''.'' @ decimal p @ sfx) =
        (if p \<noteq> 0 then ''<='' else ''<'') @ decimal M @ ''.'' @ decimal m)
   \<and> (CHR ''.'' \<notin> set sfx \<longrightarrow>
      rewrite_clause (''>'' @ decimal M @ ''.'' @ decimal m @ ''.'' @ decimal p @ sfx) =
        ''>='' @ decimal M @ ''.'' @ decimal m)
   \<and> (op \<in> {[], ''='', ''!='', ''<='', ''>='', ''=<'', ''=>'', ''~'', ''~>'', ''^''} \<and>
      CHR ''.'' \<notin> set sfx \<longrightarrow>
      rewrite_clause (op @ decimal M @ ''.'' @ decimal m @ ''.'' @ decimal p @ sfx) =
        op @ decimal M @ ''.'' @ decimal m)
   \<and> (length (strings_Split clause ''.'') < 3 \<longrightarrow> rewrite_clause clause = clause)
   \<and> (semver_StrictNewVersion w s = Inl e \<and> semver_NewConstraint w s = Inr c \<and>
      String c = strings_Join clauses '' '' \<and> clauses \<noteq> [] \<and>
      (\<forall>x \<in> set clauses. CHR '' '' \<notin> set x) \<longrightarrow>
        detectNextjsAdaptorVersion w s = strings_Join (map rewrite_clause clauses) '' '')
   \<and> (semver_StrictNewVersion w ''<14.0.15'' = Inl e1 \<and>
      semver_NewConstraint w ''<14.0.15'' = Inr c1 \<and> String c1 = ''<14.0.15'' \<longrightarrow>
        detectNextjsAdaptorVersion w ''<14.0.15'' = ''<=14.0'')
   \<and> (semver_StrictNewVersion w ''>13.0.2'' = Inl e2 \<and>
      semver_NewConstraint w ''>13.0.2'' = Inr c2 \<and> String c2 = ''>13.0.2'' \<longrightarrow>
        detectNextjsAdaptorVersion w ''>13.0.2'' = ''>=13.0'')"
proof (intro conjI impI)
  show "rewrite_clause (''<'' @ decimal M @ ''.'' @ decimal m @ ''.'' @ decimal p @ sfx) =
     (if p \<noteq> 0 then ''<='' else ''<'') @ decimal M @ ''.'' @ decimal m"
    if "CHR ''.'' \<notin> set sfx"
    using that by (rule rewrite_clause_lt)
  show "rewrite_clause (''>'' @ decimal M @ ''.'' @ decimal m @ ''.'' @ decimal p @ sfx) =
     ''>='' @ decimal M @ ''.'' @ decimal m"
    if "CHR ''.'' \<notin> set sfx"
    using that by (rule rewrite_clause_gt)
  show "rewrite_clause (op @ decimal M @ ''.'' @ decimal m @ ''.'' @ decimal p @ sfx) =
     op @ decimal M @ ''.'' @ decimal m"
    if "op \<in> {[], ''='', ''!='', ''<='', ''>='', ''=<'', ''=>'', ''~'', ''~>'', ''^''} \<and>
        CHR ''.'' \<notin> set sfx"
    using conjunct1 [OF that] conjunct2 [OF that] by (rule rewrite_clause_other)
  show "rewrite_clause clause = clause" if "length (strings_Split clause ''.'') < 3"
    using that rewrite_clause_not_three [of clause] by simp
  show "detectNextjsAdaptorVersion w s = strings_Join (map rewrite_clause clauses) '' ''"
    if "semver_StrictNewVersion w s = Inl e \<and> semver_NewConstraint w s = Inr c \<and>
      String c = strings_Join clauses '' '' \<and> clauses \<noteq> [] \<and>
      (\<forall>x \<in> set clauses. CHR '' '' \<notin> set x)"
    using that detect_joined [of w s e c clauses] by simp
  show "detectNextjsAdaptorVersion w ''<14.0.15'' = ''<=14.0''"
    if "semver_StrictNewVersion w ''<14.0.15'' = Inl e1 \<and>
      semver_NewConstraint w ''<14.0.15'' = Inr c1 \<and> String c1 = ''<14.0.15''"
    using that detect_single_clause [of w "''<14.0.15''" e1 c1 "''<14.0.15''"]
    by (simp add: rewrite_example_lt)
  show "detectNextjsAdaptorVersion w ''>13.0.2'' = ''>=13.0''"
    if "semver_StrictNewVersion w ''>13.0.2'' = Inl e2 \<and>
      semver_NewConstraint w ''>13.0.2'' = Inr c2 \<and> String c2 = ''>13.0.2''"
    using that detect_single_clause [of w "''>13.0.2''" e2 c2 "''>13.0.2''"]
    by (simp add: rewrite_example_gt)
qed

lemma rewrite_canonical_examples:
  "detectNextjsAdaptorVersion (example_world [] [] []) ''<14.0.15'' = ''<=14.0''
   \<and> detectNextjsAdaptorVersion (example_world [] [] []) ''>13.0.2'' = ''>=13.0''
   \<and> detectNextjsAdaptorVersion (example_world [] [] []) ''>13.0.2 <14.0.15'' = ''>=13.0 <=14.0''
   \<and> rewrite_clause ''<14.0.0'' = ''<14.0''
   \<and> rewrite_clause ''<14.2.1-rc'' = ''<=14.2''
   \<and> rewrite_clause ''~14.2.1-rc'' = ''~14.2''
   \<and> rewrite_clause ''^14'' = ''^14''"
  using
    rewrite_canonical_clauses [where M = 14 and m = 0 and p = 0 and sfx = "[]" and op = "''~''"
      and clause = "''^14''"
      and w = "example_world [] [] []" and s = "''>13.0.2 <14.0.15''"
      and e = "Errorf ''Invalid Semantic Version''" and c = "\<lparr>String = ''>13.0.2 <14.0.15''\<rparr>"
      and clauses = "[''>13.0.2'', ''<14.0.15'']"
      and ?e1.0 = "Errorf ''Invalid Semantic Version''" and ?c1.0 = "\<lparr>String = ''<14.0.15''\<rparr>"
      and ?e2.0 = "Errorf ''Invalid Semantic Version''" and ?c2.0 = "\<lparr>String = ''>13.0.2''\<rparr>"]
    rewrite_canonical_clauses [where M = 14 and m = 2 and p = 1 and sfx = "''-rc''" and op = "''~''"]
  by (simp add: example_world_def example_StrictNewVersion_def example_NewConstraint_def
      decimal.simps strings_Split_def strings_HasPrefix_def rewrite_example_lt rewrite_example_gt)

lemma Split_three_text:
  assumes "CHR ''.'' \<notin> set v0" and "CHR ''.'' \<notin> set mi" and "CHR ''.'' \<notin> set pa"
  shows "strings_Split (v0 @ ''.'' @ mi @ ''.'' @ pa) ''.'' = [v0, mi, pa]"
proof -
  have "split_from ''.'' [] (v0 @ CHR ''.'' # (mi @ CHR ''.'' # pa))
        = v0 # split_from ''.'' [] (mi @ CHR ''.'' # pa)"
    using split_from_single_cut [where cur = "[]", OF assms(1)] by simp
  also have "split_from ''.'' [] (mi @ CHR ''.'' # pa) = mi # split_from ''.'' [] pa"
    using split_from_single_cut [where cur = "[]", OF assms(2)] by simp
  also have "split_from ''.'' [] pa = [pa]"
    using split_from_single_none [where cur = "[]", OF assms(3)] by simp
  finally show ?thesis by (simp add: strings_Split_def)
qed

text \<open>
  What the loop body does on every clause with three components: the test for the upper
  bound reads the first character of the patch text.
\<close>

lemma rewrite_clause_text:
  assumes "CHR ''.'' \<notin> set v0" and "CHR ''.'' \<notin> set mi" and "CHR ''.'' \<notin> set pa"
  shows "rewrite_clause (v0 @ ''.'' @ mi @ ''.'' @ pa) =
     (let v1 = (if strings_HasPrefix v0 ''<'' \<and> \<not> strings_HasPrefix v0 ''<='' \<and>
                   \<not> strings_HasPrefix pa ''0''
                then ''<='' @ drop 1 v0 else v0);
          v2 = (if strings_HasPrefix v1 ''>'' \<and> \<not> strings_HasPrefix v1 ''>=''
                then ''>='' @ drop 1 v1 else v1)
      in v2 @ ''.'' @ mi)"
  unfolding rewrite_clause_def Split_three_text [OF assms]
  by (simp add: Let_def)

lemma rewrite_leading_zero: "rewrite_clause ''<14.0.015'' = ''<14.0''"
  using rewrite_clause_text [of "''<14''" "''0''" "''015''"]
  by (simp add: strings_HasPrefix_def)

lemma rewrite_wildcard: "rewrite_clause ''<14.0.x'' = ''<=14.0''"
  using rewrite_clause_text [of "''<14''" "''0''" "''x''"]
  by (simp add: strings_HasPrefix_def)

text \<open>
  Claim C6 fails on the code.  The clause \<open><14.0.015\<close> has three components and its
  patch component is the number 15, which is not zero; the comment in the source says
  that \<open><\<close> is converted to \<open><=\<close> when the patch version is greater than 0.  The test
  in the source looks for the character 0 at the start of the patch text instead, so the
  comparator stays strict and the result is \<open><14.0\<close>, where the claim gives \<open><=14.0\<close>.
\<close>

theorem detect_leading_zero_patch_stays_strict:
  "detectNextjsAdaptorVersion (example_world [] [] []) ''<14.0.015'' = ''<14.0''
   \<and> rewrite_clause ''<14.0.015'' = ''<14.0''
   \<and> length (strings_Split ''<14.0.015'' ''.'') = 3"
  using detect_single_clause [of "example_world [] [] []" "''<14.0.015''"
      "Errorf ''Invalid Semantic Version''" "\<lparr>String = ''<14.0.015''\<rparr>" "''<14.0.015''"]
    Split_three_text [of "''<14''" "''0''" "''015''"]
  by (simp add: example_world_def example_StrictNewVersion_def example_NewConstraint_def
      rewrite_leading_zero)

section \<open>Properties of the version resolution\<close>

lemma Split_paren_hd:
  "(case strings_Split v ''('' of x # _ \<Rightarrow> Some (Inr x) | [] \<Rightarrow> Some (Inl e)) =
     Some (Inr (takeWhile (\<lambda>x. x \<noteq> CHR ''('') v))"
proof -
  obtain x xs where s: "split_from ''('' [] v = x # xs"
    using split_from_not_Nil [of "''(''" "[]" v] by (cases "split_from ''('' [] v") auto
  then have "x = takeWhile (\<lambda>x. x \<noteq> CHR ''('') v"
    using split_from_single_hd [of "CHR ''(''" "[]" v] by simp
  with s show ?thesis by (simp add: strings_Split_def)
qed

lemma lockfile_step_pnpm:
  "lockfile_step w pjs ''pnpm-lock.yaml'' raw =
     (case yaml_Unmarshal w raw of
        Inr lockfile \<Rightarrow>
          Some (Inr (takeWhile (\<lambda>x. x \<noteq> CHR ''('')
                       (lookup_version (pnpm_Dependencies lockfile) ''next'')))
      | Inl _ \<Rightarrow> None)"
  by (simp add: lockfile_step_def pnpm_branch_def yarn_branch_def npm_branch_def Split_paren_hd
      split: sum.splits)

lemma lockfile_step_yarn:
  "lockfile_step w pjs ''yarn.lock'' raw =
     scan_blocks pjs (strings_Split raw [CHR 0x0A, CHR 0x0A])"
  by (simp add: lockfile_step_def pnpm_branch_def yarn_branch_def npm_branch_def
      split: option.splits)

lemma lockfile_step_npm:
  "filename = ''npm-shrinkwrap.json'' \<or> filename = ''package-lock.json'' \<Longrightarrow>
   lockfile_step w pjs filename raw =
     (case json_Unmarshal w raw of
        Inr lockfile \<Rightarrow> Some (Inr (lookup_version (Packages lockfile) ''node_modules/next''))
      | Inl _ \<Rightarrow> None)"
  by (auto simp: lockfile_step_def pnpm_branch_def yarn_branch_def npm_branch_def)

lemma Version_pnpm:
  assumes "read_lockfile w ctx ''pnpm-lock.yaml'' = Inr raw" and "yaml_Unmarshal w raw = Inr lockfile"
  shows "Version w ctx pjs =
    Inr (takeWhile (\<lambda>x. x \<noteq> CHR ''('') (lookup_version (pnpm_Dependencies lockfile) ''next''))"
  using assms by (simp add: Version_def possibleLockfileFilenames_def lockfile_step_pnpm)

lemma Version_after_pnpm:
  assumes "pnpm_skipped w ctx"
  shows "Version w ctx pjs =
    Version_loop w ctx pjs [''yarn.lock'', ''npm-shrinkwrap.json'', ''package-lock.json'']"
  using assms
  by (auto simp: Version_def possibleLockfileFilenames_def pnpm_skipped_def lockfile_step_pnpm
      split: sum.splits)

lemma Version_loop_yarn_found:
  assumes "read_lockfile w ctx ''yarn.lock'' = Inr raw"
    and "scan_blocks pjs (strings_Split raw [CHR 0x0A, CHR 0x0A]) = Some r"
  shows "Version_loop w ctx pjs (''yarn.lock'' # rest) = r"
  using assms by (simp add: lockfile_step_yarn)

lemma Version_loop_yarn_skipped:
  assumes "yarn_skipped w ctx pjs"
  shows "Version_loop w ctx pjs (''yarn.lock'' # rest) = Version_loop w ctx pjs rest"
  using assms by (auto simp: yarn_skipped_def lockfile_step_yarn split: sum.splits)

lemma Version_loop_npm_found:
  assumes "filename = ''npm-shrinkwrap.json'' \<or> filename = ''package-lock.json''"
    and "read_lockfile w ctx filename = Inr raw" and "json_Unmarshal w raw = Inr lockfile"
  shows "Version_loop w ctx pjs (filename # rest) =
    Inr (lookup_version (Packages lockfile) ''node_modules/next'')"
  using assms(2,3) by (simp add: lockfile_step_npm [OF assms(1)])

lemma Version_loop_npm_skipped:
  assumes "filename = ''npm-shrinkwrap.json'' \<or> filename = ''package-lock.json''"
    and "npm_skipped w ctx filename"
  shows "Version_loop w ctx pjs (filename # rest) = Version_loop w ctx pjs rest"
  using assms(2) by (auto simp: npm_skipped_def lockfile_step_npm [OF assms(1)] split: sum.splits)

lemma Version_loop_unreadable:
  assumes "\<forall>f \<in> set fs. \<exists>e. read_lockfile w ctx f = Inl e"
  shows "Version_loop w ctx pjs fs = Inr (lookup_string (Dependencies pjs) ''next'')"
  using assms by (induction fs) auto

lemma example_yarn_blocks:
  "strings_Split example_yarn_lock [CHR 0x0A, CHR 0x0A] =
     [''next@^13.0.0:'' @ [CHR 0x0A] @ ''  version '' @ [CHR 0x22] @ ''13.5.6'' @ [CHR 0x22],
      ''next@^14.0.0:'' @ [CHR 0x0A] @ ''  version '' @ [CHR 0x22] @ ''14.2.3'' @ [CHR 0x22] @ [CHR 0x0A]]"
  by (simp add: example_yarn_lock_def strings_Split_def strings_HasPrefix_def)

lemma example_scan_first:
  "scan_lines (strings_Split (''next@^13.0.0:'' @ [CHR 0x0A] @ ''  version '' @ [CHR 0x22] @
      ''13.5.6'' @ [CHR 0x22]) [CHR 0x0A]) = Some (Inr ''13.5.6'')"
  by (simp add: strings_Split_def strings_HasPrefix_def strings_Fields_def space_width_def
      flush_field_def strings_Trim_def)

lemma example_scan_second:
  "scan_lines (strings_Split (''next@^14.0.0:'' @ [CHR 0x0A] @ ''  version '' @ [CHR 0x22] @
      ''14.2.3'' @ [CHR 0x22] @ [CHR 0x0A]) [CHR 0x0A]) = Some (Inr ''14.2.3'')"
  by (simp add: strings_Split_def strings_HasPrefix_def strings_Fields_def space_width_def
      flush_field_def strings_Trim_def)

lemma example_yarn_scan:
  "scan_blocks example_pjs (strings_Split example_yarn_lock [CHR 0x0A, CHR 0x0A]) =
     Some (Inr ''14.2.3'')"
  unfolding example_yarn_blocks
  using example_scan_second
  by (simp add: example_pjs_def lookup_string_def strings_HasPrefix_def)

text \<open>
  Claim C7.  When \<open>pnpm-lock.yaml\<close> can be read and decoded and has an entry for
  \<open>next\<close>, the result is the part of the entry's version before the first opening
  parenthesis: for a version written \<open>v(q)\<close> with no parenthesis in \<open>v\<close>, it is \<open>v\<close>.
\<close>

theorem pnpm_version_qualifier:
  assumes "read_lockfile w ctx ''pnpm-lock.yaml'' = Inr raw"
    and "yaml_Unmarshal w raw = Inr lockfile"
    and "pnpm_Dependencies lockfile ''next'' = Some entry"
  shows "Version w ctx pjs = Inr (takeWhile (\<lambda>x. x \<noteq> CHR ''('') (entry_Version entry))
       \<and> (entry_Version entry = v @ ''('' @ q \<and> CHR ''('' \<notin> set v \<longrightarrow> Version w ctx pjs = Inr v)"
proof -
  have "lookup_version (pnpm_Dependencies lockfile) ''next'' = entry_Version entry"
    using assms(3) by (simp add: lookup_version_def)
  with Version_pnpm [OF assms(1,2), of pjs]
  have r: "Version w ctx pjs = Inr (takeWhile (\<lambda>x. x \<noteq> CHR ''('') (entry_Version entry))"
    by simp
  have "takeWhile (\<lambda>x. x \<noteq> CHR ''('') (v @ ''('' @ q) = v" if "CHR ''('' \<notin> set v"
    using that by (induction v) auto
  with r show ?thesis by auto
qed

theorem pnpm_version_qualifier_witness:
  "Version (example_world [(''/workspace/pnpm-lock.yaml'', example_pnpm_lock)]
      [(example_pnpm_lock, example_pnpm_parsed)] []) example_ctx example_pjs = Inr ''14.2.3''"
  using pnpm_version_qualifier [of
      "example_world [(''/workspace/pnpm-lock.yaml'', example_pnpm_lock)]
         [(example_pnpm_lock, example_pnpm_parsed)] []"
      example_ctx example_pnpm_lock example_pnpm_parsed
      "\<lparr>entry_Version = ''14.2.3(react@18.2.0)''\<rparr>" example_pjs "''14.2.3''" "''react@18.2.0)''"]
  by (simp add: read_lockfile_def example_world_def example_ctx_def example_pnpm_parsed_def)

text \<open>
  Claim C1 does not hold as stated: a pnpm or npm lock file that is read and decoded ends
  the search even when it has no entry for \<open>next\<close>.  Here \<open>pnpm-lock.yaml\<close> has no such
  entry, \<open>package-lock.json\<close> records 14.2.3 and the manifest declares \<open>^14.0.0\<close>; the
  code returns the empty string, where the first non-empty match is 14.2.3.
\<close>

theorem Version_empty_match_counterexample:
  "Version
     (example_world
        [(''/workspace/pnpm-lock.yaml'', example_pnpm_lock_without_next),
         (''/workspace/package-lock.json'', example_package_lock)]
        [(example_pnpm_lock_without_next, example_pnpm_parsed_without_next)]
        [(example_package_lock, example_package_lock_parsed)])
     example_ctx example_pjs = Inr []
   \<and> spec_resolveInstalledVersion
     (example_world
        [(''/workspace/pnpm-lock.yaml'', example_pnpm_lock_without_next),
         (''/workspace/package-lock.json'', example_package_lock)]
        [(example_pnpm_lock_without_next, example_pnpm_parsed_without_next)]
        [(example_package_lock, example_package_lock_parsed)])
     example_ctx example_pjs = ''14.2.3''
   \<and> lookup_string (Dependencies example_pjs) ''next'' = ''^14.0.0''"
  by (simp add: Version_def spec_resolveInstalledVersion_def spec_match_def
      possibleLockfileFilenames_def read_lockfile_def example_world_def example_ctx_def
      lockfile_step_pnpm lockfile_step_yarn lockfile_step_npm
      example_pnpm_lock_without_next_def example_pnpm_parsed_without_next_def
      example_package_lock_def example_package_lock_parsed_def example_pjs_def
      lookup_version_def lookup_string_def)

text \<open>
  Claim C1, amended.  The lock files are examined in the order \<open>pnpm-lock.yaml\<close>,
  \<open>yarn.lock\<close>, \<open>npm-shrinkwrap.json\<close>, \<open>package-lock.json\<close>.  A pnpm or npm lock file
  that can be read and decoded ends the search with the version it records for \<open>next\<close>
  (cut at the first parenthesis for pnpm), which is the empty string when it has no entry;
  \<open>yarn.lock\<close> ends the search when a selected block has a version line.  A file that
  cannot be read or decoded, and a \<open>yarn.lock\<close> without such a block, are passed over.
  When every file is passed over, in particular when none of the four can be read, the
  result is the specifier that the manifest declares for \<open>next\<close>.
\<close>

theorem Version_lockfile_priority:
  "(read_lockfile w ctx ''pnpm-lock.yaml'' = Inr raw1 \<and> yaml_Unmarshal w raw1 = Inr l1 \<longrightarrow>
      Version w ctx pjs =
        Inr (takeWhile (\<lambda>x. x \<noteq> CHR ''('') (lookup_version (pnpm_Dependencies l1) ''next'')))
   \<and> (pnpm_skipped w ctx \<and> read_lockfile w ctx ''yarn.lock'' = Inr raw2 \<and>
      scan_blocks pjs (strings_Split raw2 [CHR 0x0A, CHR 0x0A]) = Some (Inr v) \<longrightarrow>
      Version w ctx pjs = Inr v)
   \<and> (pnpm_skipped w ctx \<and> yarn_skipped w ctx pjs \<and>
      read_lockfile w ctx ''npm-shrinkwrap.json'' = Inr raw3 \<and> json_Unmarshal w raw3 = Inr l3 \<longrightarrow>
      Version w ctx pjs = Inr (lookup_version (Packages l3) ''node_modules/next''))
   \<and> (pnpm_skipped w ctx \<and> yarn_skipped w ctx pjs \<and> npm_skipped w ctx ''npm-shrinkwrap.json'' \<and>
      read_lockfile w ctx ''package-lock.json'' = Inr raw4 \<and> json_Unmarshal w raw4 = Inr l4 \<longrightarrow>
      Version w ctx pjs = Inr (lookup_version (Packages l4) ''node_modules/next''))
   \<and> (pnpm_skipped w ctx \<and> yarn_skipped w ctx pjs \<and> npm_skipped w ctx ''npm-shrinkwrap.json'' \<and>
      npm_skipped w ctx ''package-lock.json'' \<longrightarrow>
      Version w ctx pjs = Inr (lookup_string (Dependencies pjs) ''next''))
   \<and> ((\<forall>f \<in> set possibleLockfileFilenames. \<exists>e. read_lockfile w ctx f = Inl e) \<longrightarrow>
      Version w ctx pjs = Inr (lookup_string (Dependencies pjs) ''next''))"
proof (intro conjI impI)
  show "Version w ctx pjs =
      Inr (takeWhile (\<lambda>x. x \<noteq> CHR ''('') (lookup_version (pnpm_Dependencies l1) ''next''))"
    if "read_lockfile w ctx ''pnpm-lock.yaml'' = Inr raw1 \<and> yaml_Unmarshal w raw1 = Inr l1"
    using that Version_pnpm [of w ctx raw1 l1 pjs] by blast
  show "Version w ctx pjs = Inr v"
    if "pnpm_skipped w ctx \<and> read_lockfile w ctx ''yarn.lock'' = Inr raw2 \<and>
      scan_blocks pjs (strings_Split raw2 [CHR 0x0A, CHR 0x0A]) = Some (Inr v)"
    using that Version_after_pnpm [of w ctx pjs]
      Version_loop_yarn_found [of w ctx raw2 pjs "Inr v"] by simp
  show "Version w ctx pjs = Inr (lookup_version (Packages l3) ''node_modules/next'')"
    if "pnpm_skipped w ctx \<and> yarn_skipped w ctx pjs \<and>
      read_lockfile w ctx ''npm-shrinkwrap.json'' = Inr raw3 \<and> json_Unmarshal w raw3 = Inr l3"
    using that Version_after_pnpm [of w ctx pjs] Version_loop_yarn_skipped [of w ctx pjs]
      Version_loop_npm_found [of "''npm-shrinkwrap.json''" w ctx raw3 l3 pjs] by simp
  show "Version w ctx pjs = Inr (lookup_version (Packages l4) ''node_modules/next'')"
    if "pnpm_skipped w ctx \<and> yarn_skipped w ctx pjs \<and> npm_skipped w ctx ''npm-shrinkwrap.json'' \<and>
      read_lockfile w ctx ''package-lock.json'' = Inr raw4 \<and> json_Unmarshal w raw4 = Inr l4"
    using that Version_after_pnpm [of w ctx pjs] Version_loop_yarn_skipped [of w ctx pjs]
      Version_loop_npm_skipped [of "''npm-shrinkwrap.json''" w ctx pjs]
      Version_loop_npm_found [of "''package-lock.json''" w ctx raw4 l4 pjs] by simp
  show "Version w ctx pjs = Inr (lookup_string (Dependencies pjs) ''next'')"
    if "pnpm_skipped w ctx \<and> yarn_skipped w ctx pjs \<and> npm_skipped w ctx ''npm-shrinkwrap.json'' \<and>
      npm_skipped w ctx ''package-lock.json''"
    using that Version_after_pnpm [of w ctx pjs] Version_loop_yarn_skipped [of w ctx pjs]
      Version_loop_npm_skipped [of "''npm-shrinkwrap.json''" w ctx pjs]
      Version_loop_npm_skipped [of "''package-lock.json''" w ctx pjs] by simp
  show "Version w ctx pjs = Inr (lookup_string (Dependencies pjs) ''next'')"
    if "\<forall>f \<in> set possibleLockfileFilenames. \<exists>e. read_lockfile w ctx f = Inl e"
    using that Version_loop_unreadable [of possibleLockfileFilenames w ctx pjs]
    by (simp add: Version_def)
qed

theorem Version_lockfile_priority_witness:
  "Version (example_world [] [] []) example_ctx example_pjs = Inr ''^14.0.0''
   \<and> Version (example_world [(''/workspace/package-lock.json'', example_package_lock)] []
        [(example_package_lock, example_package_lock_parsed)]) example_ctx example_pjs
      = Inr ''14.2.3''
   \<and> Version (example_world [(''/workspace/yarn.lock'', example_yarn_lock)] [] [])
        example_ctx example_pjs = Inr ''14.2.3''
   \<and> Version (example_world [(''/workspace/pnpm-lock.yaml'', example_pnpm_lock_without_next)]
        [(example_pnpm_lock_without_next, example_pnpm_parsed_without_next)] [])
        example_ctx example_pjs = Inr []"
  using
    Version_lockfile_priority [where w = "example_world [] [] []" and ctx = example_ctx
      and pjs = example_pjs]
    Version_lockfile_priority [where
      w = "example_world [(''/workspace/package-lock.json'', example_package_lock)] []
             [(example_package_lock, example_package_lock_parsed)]"
      and ctx = example_ctx and pjs = example_pjs and ?raw4.0 = example_package_lock
      and ?l4.0 = example_package_lock_parsed]
    Version_lockfile_priority [where
      w = "example_world [(''/workspace/yarn.lock'', example_yarn_lock)] [] []"
      and ctx = example_ctx and pjs = example_pjs and ?raw2.0 = example_yarn_lock
      and v = "''14.2.3''"]
    Version_lockfile_priority [where
      w = "example_world [(''/workspace/pnpm-lock.yaml'', example_pnpm_lock_without_next)]
             [(example_pnpm_lock_without_next, example_pnpm_parsed_without_next)] []"
      and ctx = example_ctx and pjs = example_pjs and ?raw1.0 = example_pnpm_lock_without_next
      and ?l1.0 = example_pnpm_parsed_without_next]
    example_yarn_scan
  by (simp add: possibleLockfileFilenames_def read_lockfile_def example_world_def example_ctx_def
      pnpm_skipped_def yarn_skipped_def npm_skipped_def
      example_package_lock_parsed_def example_pnpm_parsed_without_next_def
      lookup_version_def lookup_string_def example_pjs_def)

text \<open>
  Claim C8 fails on the code.  A block of \<open>yarn.lock\<close> that is selected and whose first
  line containing \<open>version\<close> has a single field (here the header line of a package named
  \<open>version-next\<close>) makes the program index the second of one field: it panics instead of
  passing over the file.
\<close>

theorem Version_yarn_single_field_panics:
  "Version (example_world [(''/workspace/yarn.lock'', example_yarn_lock_one_field)] [] [])
     example_ctx example_pjs = Inl (Panic ''index out of range [1]'')"
  by (simp add: Version_def possibleLockfileFilenames_def read_lockfile_def example_world_def
      example_ctx_def lockfile_step_yarn example_yarn_lock_one_field_def example_pjs_def
      lookup_string_def strings_Split_def strings_HasPrefix_def strings_Fields_def
      space_width_def flush_field_def)

lemma Contains_empty: "strings_Contains s []"
  by (cases s) (simp_all add: strings_HasPrefix_def)

lemma scan_blocks_pass:
  assumes "\<forall>x \<in> set pre. \<not> (strings_Contains x ''next@'' \<and>
             strings_Contains x (lookup_string (Dependencies pjs) ''next''))"
  shows "scan_blocks pjs (pre @ rest) = scan_blocks pjs rest"
  using assms by (induction pre) auto

text \<open>
  Claim C9.  A block that does not contain both \<open>next@\<close> and the declared specifier is not
  selected.  When the manifest has no entry for \<open>next\<close> the declared specifier is the
  empty string, which every block contains; then the first block containing \<open>next@\<close> is
  the first one whose lines are scanned, whatever version it pins, and if it has a line
  containing \<open>version\<close> its outcome is the result of the yarn branch and, when the pnpm
  lock file is passed over, of \<open>Version\<close>.
\<close>

theorem yarn_selection_without_manifest_entry:
  "(\<not> (strings_Contains b ''next@'' \<and>
        strings_Contains b (lookup_string (Dependencies pjs) ''next'')) \<longrightarrow>
      scan_blocks pjs (b # rest) = scan_blocks pjs rest)
   \<and> (Dependencies pjs ''next'' = None \<longrightarrow>
      lookup_string (Dependencies pjs) ''next'' = [] \<and>
      strings_Contains block (lookup_string (Dependencies pjs) ''next''))
   \<and> (Dependencies pjs ''next'' = None \<and> (\<forall>x \<in> set pre. \<not> strings_Contains x ''next@'') \<and>
      strings_Contains b ''next@'' \<longrightarrow>
      scan_blocks pjs (pre @ b # post) =
        (case scan_lines (strings_Split b [CHR 0x0A]) of
           Some r \<Rightarrow> Some r | None \<Rightarrow> scan_blocks pjs post))
   \<and> (Dependencies pjs ''next'' = None \<and> pnpm_skipped w ctx \<and>
      read_lockfile w ctx ''yarn.lock'' = Inr raw \<and>
      strings_Split raw [CHR 0x0A, CHR 0x0A] = pre @ b # post \<and>
      (\<forall>x \<in> set pre. \<not> strings_Contains x ''next@'') \<and> strings_Contains b ''next@'' \<and>
      scan_lines (strings_Split b [CHR 0x0A]) = Some r \<longrightarrow>
      Version w ctx pjs = r)"
proof (intro conjI impI)
  show "scan_blocks pjs (b # rest) = scan_blocks pjs rest"
    if "\<not> (strings_Contains b ''next@'' \<and>
           strings_Contains b (lookup_string (Dependencies pjs) ''next''))"
    using that by auto
  show "lookup_string (Dependencies pjs) ''next'' = []" if "Dependencies pjs ''next'' = None"
    using that by (simp add: lookup_string_def)
  show "strings_Contains block (lookup_string (Dependencies pjs) ''next'')"
    if "Dependencies pjs ''next'' = None"
    using that by (simp add: lookup_string_def Contains_empty)
  have sel: "scan_blocks pjs (pre @ b # post) =
        (case scan_lines (strings_Split b [CHR 0x0A]) of
           Some r \<Rightarrow> Some r | None \<Rightarrow> scan_blocks pjs post)"
    if "Dependencies pjs ''next'' = None" "\<forall>x \<in> set pre. \<not> strings_Contains x ''next@''"
       "strings_Contains b ''next@''" for pre b post
    using that scan_blocks_pass [of pre pjs "b # post"]
    by (simp add: lookup_string_def Contains_empty)
  show "scan_blocks pjs (pre @ b # post) =
        (case scan_lines (strings_Split b [CHR 0x0A]) of
           Some r \<Rightarrow> Some r | None \<Rightarrow> scan_blocks pjs post)"
    if "Dependencies pjs ''next'' = None \<and> (\<forall>x \<in> set pre. \<not> strings_Contains x ''next@'') \<and>
        strings_Contains b ''next@''"
    using that sel by blast
  show "Version w ctx pjs = r"
    if h: "Dependencies pjs ''next'' = None \<and> pnpm_skipped w ctx \<and>
      read_lockfile w ctx ''yarn.lock'' = Inr raw \<and>
      strings_Split raw [CHR 0x0A, CHR 0x0A] = pre @ b # post \<and>
      (\<forall>x \<in> set pre. \<not> strings_Contains x ''next@'') \<and> strings_Contains b ''next@'' \<and>
      scan_lines (strings_Split b [CHR 0x0A]) = Some r"
  proof -
    from h sel [of pre b post]
    have "scan_blocks pjs (strings_Split raw [CHR 0x0A, CHR 0x0A]) = Some r" by simp
    with h Version_after_pnpm [of w ctx pjs] Version_loop_yarn_found [of w ctx raw pjs r]
    show ?thesis by simp
  qed
qed

theorem yarn_selection_without_manifest_entry_witness:
  "Version (example_world [(''/workspace/yarn.lock'', example_yarn_lock)] [] [])
     example_ctx example_pjs_without_next = Inr ''13.5.6''"
  using
    yarn_selection_without_manifest_entry [where pjs = example_pjs_without_next
      and w = "example_world [(''/workspace/yarn.lock'', example_yarn_lock)] [] []"
      and ctx = example_ctx and raw = example_yarn_lock and pre = "[]"
      and b = "''next@^13.0.0:'' @ [CHR 0x0A] @ ''  version '' @ [CHR 0x22] @ ''13.5.6'' @ [CHR 0x22]"
      and post = "[''next@^14.0.0:'' @ [CHR 0x0A] @ ''  version '' @ [CHR 0x22] @ ''14.2.3'' @
                   [CHR 0x22] @ [CHR 0x0A]]"
      and r = "Inr ''13.5.6''"]
    example_yarn_blocks example_scan_first
  by (simp add: read_lockfile_def example_world_def example_ctx_def pnpm_skipped_def
      example_pjs_without_next_def strings_HasPrefix_def)

end
